theory Spec2Isabelle
  imports Main "HOL-Library.AList" "HOL-Library.Log_Nat"
begin

section \<open>Python values and exceptions\<close>

text \<open>
  The exceptions that the code of \<^verbatim>\<open>qwatch.py\<close> can raise. A function
  that may raise returns \<open>error + 'a\<close>, with \<open>Inl\<close> for the exception.
\<close>

datatype error =
    IndexError
  | KeyError
  | TypeError
  | ValueError
  | AttributeError
  | OverflowError
  | ExpatError
  | OSError

text \<open>
  The nested dictionary that \<^verbatim>\<open>parse_job\<close> builds: a key maps to a
  string or to another dictionary. A dictionary is an association list
  with distinct keys; \<^verbatim>\<open>data[key] = v\<close> is \<^const>\<open>AList.update\<close>
  (an existing key keeps its place and gets the new value, a new key is
  appended) and \<^verbatim>\<open>data[key]\<close> is \<^const>\<open>map_of\<close>.
\<close>

datatype jval = Str string | Dict "(string \<times> jval) list"

type_synonym dict = "(string \<times> jval) list"

section \<open>The DOM tree of \<^verbatim>\<open>xml.dom.minidom\<close>\<close>

text \<open>
  The node kinds that minidom builds below a document. Only an element has
  child nodes; of the others, \<^verbatim>\<open>childNodes\<close> is the empty list.
\<close>

datatype node =
    Element string "node list"
  | Text string
  | CDATASection string
  | Comment string
  | ProcessingInstruction string string

datatype document = Document "node list"

fun childNodes :: "node \<Rightarrow> node list" where
  "childNodes (Element t cs) = cs"
| "childNodes (Text s) = []"
| "childNodes (CDATASection s) = []"
| "childNodes (Comment s) = []"
| "childNodes (ProcessingInstruction t s) = []"

fun nodeName :: "node \<Rightarrow> string" where
  "nodeName (Element t cs) = t"
| "nodeName (Text s) = ''#text''"
| "nodeName (CDATASection s) = ''#cdata-section''"
| "nodeName (Comment s) = ''#comment''"
| "nodeName (ProcessingInstruction t s) = t"

fun nodeValue :: "node \<Rightarrow> string" where
  "nodeValue (Element t cs) = []"
| "nodeValue (Text s) = s"
| "nodeValue (CDATASection s) = s"
| "nodeValue (Comment s) = s"
| "nodeValue (ProcessingInstruction t s) = s"

text \<open>\<^verbatim>\<open>n.nodeType == n.TEXT_NODE\<close>: a CDATA section has a node type of its own.\<close>

fun is_text_node :: "node \<Rightarrow> bool" where
  "is_text_node (Text s) = True"
| "is_text_node n = False"

text \<open>
  \<^verbatim>\<open>getElementsByTagName\<close>: every element below the given nodes whose tag
  is the name (or any element for \<^verbatim>\<open>"*"\<close>), in preorder, which is document
  order. An element is listed before the elements inside it.
\<close>

fun elements_by_tag :: "string \<Rightarrow> node \<Rightarrow> node list"
  and elements_by_tag_list :: "string \<Rightarrow> node list \<Rightarrow> node list" where
  "elements_by_tag name (Element t cs) =
     (if name = ''*'' \<or> t = name then [Element t cs] else []) @ elements_by_tag_list name cs"
| "elements_by_tag name (Text s) = []"
| "elements_by_tag name (CDATASection s) = []"
| "elements_by_tag name (Comment s) = []"
| "elements_by_tag name (ProcessingInstruction t s) = []"
| "elements_by_tag_list name [] = []"
| "elements_by_tag_list name (n # ns) = elements_by_tag name n @ elements_by_tag_list name ns"

fun getElementsByTagName :: "document \<Rightarrow> string \<Rightarrow> node list" where
  "getElementsByTagName (Document cs) name = elements_by_tag_list name cs"

section \<open>QWatchParser\<close>

text \<open>
  \<^verbatim>\<open>name.lower()\<close> on the bytes of the name: the letters A to Z are mapped
  to a to z, every other byte is kept.
\<close>

definition lower_char :: "char \<Rightarrow> char" where
  "lower_char c =
     (case map_of (zip ''ABCDEFGHIJKLMNOPQRSTUVWXYZ'' ''abcdefghijklmnopqrstuvwxyz'') c of
        None \<Rightarrow> c
      | Some l \<Rightarrow> l)"

definition normalize_name :: "string \<Rightarrow> string" where
  "normalize_name name = map lower_char name"

text \<open>
  \<^verbatim>\<open>parse_job\<close>. The loop over \<^verbatim>\<open>job_element.childNodes\<close> is
  \<open>parse_nodes\<close>, with the dictionary built so far as its accumulator.
  For each child node, \<^verbatim>\<open>node.childNodes[0]\<close> is read first: on a node
  without children this raises IndexError, before the test
  \<^verbatim>\<open>len(node.childNodes) > 0\<close> of the second branch is reached.
\<close>

fun parse_job :: "node \<Rightarrow> error + dict"
  and parse_nodes :: "node list \<Rightarrow> dict \<Rightarrow> error + dict" where
  "parse_job (Element t cs) = parse_nodes cs []"
| "parse_job (Text s) = Inr []"
| "parse_job (CDATASection s) = Inr []"
| "parse_job (Comment s) = Inr []"
| "parse_job (ProcessingInstruction t s) = Inr []"
| "parse_nodes [] data = Inr data"
| "parse_nodes (node # rest) data =
     (case childNodes node of
        [] \<Rightarrow> Inl IndexError
      | c # cs \<Rightarrow>
          if is_text_node c
          then parse_nodes rest (AList.update (normalize_name (nodeName node)) (Str (nodeValue c)) data)
          else if length (childNodes node) > 0
          then (case parse_job node of
                  Inl e \<Rightarrow> Inl e
                | Inr sub \<Rightarrow>
                    parse_nodes rest (AList.update (normalize_name (nodeName node)) (Dict sub) data))
          else parse_nodes rest data)"

text \<open>The class \<^verbatim>\<open>Job\<close>: a container for the dictionary.\<close>

datatype job = Job (data: dict)

text \<open>
  \<^verbatim>\<open>parse\<close>. The XML parser \<^verbatim>\<open>minidom.parseString\<close> is a parameter:
  it returns the document or raises ExpatError. The loop over the job
  elements is \<open>parse_jobs\<close>; an exception of \<^verbatim>\<open>parse_job\<close> ends it.
\<close>

fun parse_jobs :: "node list \<Rightarrow> error + job list" where
  "parse_jobs [] = Inr []"
| "parse_jobs (j # js) =
     (case parse_job j of
        Inl e \<Rightarrow> Inl e
      | Inr d \<Rightarrow> (case parse_jobs js of Inl e \<Rightarrow> Inl e | Inr jobs \<Rightarrow> Inr (Job d # jobs)))"

definition parse :: "(string \<Rightarrow> error + document) \<Rightarrow> string \<Rightarrow> error + job list" where
  "parse parseString xml =
     (case parseString xml of
        Inl e \<Rightarrow> Inl e
      | Inr doc \<Rightarrow> parse_jobs (getElementsByTagName doc ''Job''))"

section \<open>Job\<close>

text \<open>\<^verbatim>\<open>path.split('.')\<close>: the pieces between the separators; never empty.\<close>

fun split_on :: "char \<Rightarrow> string \<Rightarrow> string list" where
  "split_on sep [] = [[]]"
| "split_on sep (x # xs) =
     (if x = sep then [] # split_on sep xs
      else (case split_on sep xs of
              [] \<Rightarrow> [[x]]
            | w # ws \<Rightarrow> (x # w) # ws))"

text \<open>
  \<^verbatim>\<open>a[segment]\<close> with a string as index: a missing key of a dictionary
  raises KeyError, and a string cannot be indexed by a string (TypeError).
\<close>

fun getitem :: "jval \<Rightarrow> string \<Rightarrow> error + jval" where
  "getitem (Dict m) k = (case map_of m k of None \<Rightarrow> Inl KeyError | Some v \<Rightarrow> Inr v)"
| "getitem (Str s) k = Inl TypeError"

fun d_walk :: "jval \<Rightarrow> string list \<Rightarrow> error + jval" where
  "d_walk a [] = Inr a"
| "d_walk a (segment # segments) =
     (case getitem a segment of
        Inl e \<Rightarrow> Inl e
      | Inr a' \<Rightarrow> d_walk a' segments)"

definition d :: "job \<Rightarrow> string \<Rightarrow> error + jval" where
  "d j path = d_walk (Dict (data j)) (split_on CHR ''.'' path)"

definition property_map :: "(string \<times> string) list" where
  "property_map =
     [(''name'', ''job_name''),
      (''id'', ''job_id''),
      (''owner'', ''job_owner''),
      (''time'', ''resources_used.walltime''),
      (''memory'', ''resources_used.mem''),
      (''queue'', ''queue''),
      (''host'', ''exec_host'')]"

text \<open>\<^verbatim>\<open>__getattr__\<close>: an unknown name raises the KeyError of the mapping.\<close>

definition getattr :: "job \<Rightarrow> string \<Rightarrow> error + jval" where
  "getattr j name =
     (case map_of property_map name of
        None \<Rightarrow> Inl KeyError
      | Some path \<Rightarrow> d j path)"

text \<open>
  \<^verbatim>\<open>o.find('@')\<close>: the index of the first occurrence, or -1.
  \<^verbatim>\<open>o[:i]\<close>: a negative bound counts from the end of the string.
\<close>

fun find_char :: "char \<Rightarrow> string \<Rightarrow> int" where
  "find_char c [] = -1"
| "find_char c (x # xs) =
     (if x = c then 0
      else (let i = find_char c xs in if i < 0 then -1 else i + 1))"

definition slice_to :: "string \<Rightarrow> int \<Rightarrow> string" where
  "slice_to s i = (if i < 0 then take (nat (int (length s) + i)) s else take (nat i) s)"

text \<open>
  \<^verbatim>\<open>get_owner\<close>. When the field is a nested dictionary, it has no method
  \<^verbatim>\<open>find\<close> (AttributeError).
\<close>

definition get_owner :: "job \<Rightarrow> error + string" where
  "get_owner j =
     (case d j ''job_owner'' of
        Inl e \<Rightarrow> Inl e
      | Inr (Dict m) \<Rightarrow> Inl AttributeError
      | Inr (Str o') \<Rightarrow> Inr (slice_to o' (find_char CHR ''@'' o')))"

text \<open>
  \<^verbatim>\<open>int(s)\<close> on a string: white space around the number is dropped, one
  sign is allowed, and at least one decimal digit must follow; anything
  else raises ValueError.
\<close>

definition is_space :: "char \<Rightarrow> bool" where
  "is_space c = (c \<in> set [CHR '' '', CHR 0x09, CHR 0x0A, CHR 0x0B, CHR 0x0C, CHR 0x0D])"

definition strip :: "string \<Rightarrow> string" where
  "strip s = rev (dropWhile is_space (rev (dropWhile is_space s)))"

definition digit_val :: "char \<Rightarrow> int option" where
  "digit_val c = map_of (zip ''0123456789'' [0, 1, 2, 3, 4, 5, 6, 7, 8, 9]) c"

fun digits_val :: "int \<Rightarrow> string \<Rightarrow> error + int" where
  "digits_val acc [] = Inr acc"
| "digits_val acc (c # cs) =
     (case digit_val c of
        None \<Rightarrow> Inl ValueError
      | Some v \<Rightarrow> digits_val (10 * acc + v) cs)"

definition py_int :: "string \<Rightarrow> error + int" where
  "py_int s =
     (case strip s of
        [] \<Rightarrow> Inl ValueError
      | c # cs \<Rightarrow>
          if c = CHR ''-''
          then (if cs = [] then Inl ValueError
                else (case digits_val 0 cs of Inl e \<Rightarrow> Inl e | Inr v \<Rightarrow> Inr (- v)))
          else if c = CHR ''+''
          then (if cs = [] then Inl ValueError else digits_val 0 cs)
          else digits_val 0 (c # cs))"

text \<open>
  The conversion of an integer to a float, for \<^verbatim>\<open>mem / 1024.\<close>: exact
  below \<open>2 ^ 53\<close>, above that rounded to 53 significant bits, ties to even,
  and OverflowError beyond the range of a double. The result is an integer
  again, and the division by a power of two that follows is exact.
\<close>

definition float_of_int :: "int \<Rightarrow> error + int" where
  "float_of_int n =
     (let a = \<bar>n\<bar> in
      if a < 2 ^ 53 then Inr n
      else
        (let e = nat (bitlen a) - 53;
             q = a div 2 ^ e;
             r = a mod 2 ^ e;
             q' = (if 2 * r > 2 ^ e \<or> (2 * r = 2 ^ e \<and> odd q) then q + 1 else q)
         in if q' * 2 ^ e \<ge> 2 ^ 1024 then Inl OverflowError
            else Inr (sgn n * q' * 2 ^ e)))"

text \<open>The decimal digits of a natural number.\<close>

function show_nat :: "nat \<Rightarrow> string" where
  "show_nat n =
     (if n < 10 then [''0123456789'' ! n]
      else show_nat (n div 10) @ [''0123456789'' ! (n mod 10)])"
  by pat_completeness auto
termination
  by (relation "measure (\<lambda>n. n)") auto

text \<open>
  \<^verbatim>\<open>'%.1f' % x\<close> for the float \<open>x = num / den\<close> (\<open>den\<close> a positive power of
  two, so that \<open>x\<close> is the exact value of the float): the decimal with one
  digit after the point that is nearest to \<open>x\<close>, an exact tie going to the
  even digit, with the sign of \<open>x\<close> in front.
\<close>

definition format_1f :: "int \<Rightarrow> int \<Rightarrow> string" where
  "format_1f num den =
     (let a = \<bar>num\<bar>;
          q = (10 * a) div den;
          r = (10 * a) mod den;
          t = (if 2 * r > den \<or> (2 * r = den \<and> odd q) then q + 1 else q)
      in (if num < 0 then ''-'' else [])
         @ show_nat (nat (t div 10)) @ ''.'' @ show_nat (nat (t mod 10)))"

text \<open>
  \<^verbatim>\<open>get_memory\<close>. Slicing a dictionary raises TypeError. The last branch
  divides by 1024 as the branch before it does.
\<close>

definition get_memory :: "job \<Rightarrow> error + string" where
  "get_memory j =
     (case d j ''resources_used.mem'' of
        Inl e \<Rightarrow> Inl e
      | Inr (Dict m) \<Rightarrow> Inl TypeError
      | Inr (Str s) \<Rightarrow>
          (case py_int (slice_to s (-2)) of
             Inl e \<Rightarrow> Inl e
           | Inr mem \<Rightarrow>
               (case float_of_int mem of
                  Inl e \<Rightarrow> Inl e
                | Inr f \<Rightarrow>
                    if mem > 1024 * 1024 then Inr (format_1f f (1024 * 1024) @ '' GB'')
                    else if mem > 1024 then Inr (format_1f f 1024 @ '' MB'')
                    else Inr (format_1f f 1024 @ '' kB''))))"

text \<open>
  The attributes \<^verbatim>\<open>job.owner\<close> and \<^verbatim>\<open>job.memory\<close> are properties. When
  the getter of a property raises AttributeError, Python calls
  \<^verbatim>\<open>__getattr__\<close> with the name; every other exception is passed on.
\<close>

definition owner :: "job \<Rightarrow> error + jval" where
  "owner j =
     (case get_owner j of
        Inl e \<Rightarrow> if e = AttributeError then getattr j ''owner'' else Inl e
      | Inr s \<Rightarrow> Inr (Str s))"

definition memory :: "job \<Rightarrow> error + jval" where
  "memory j =
     (case get_memory j of
        Inl e \<Rightarrow> if e = AttributeError then getattr j ''memory'' else Inl e
      | Inr s \<Rightarrow> Inr (Str s))"

section \<open>QWatch\<close>

text \<open>
  A \<^verbatim>\<open>threading.Timer\<close> that has been started. It waits for its interval
  and then, unless it was cancelled meanwhile, calls \<^verbatim>\<open>refresh_data\<close> in
  a thread of its own. \<open>Fired b\<close>: the call has begun and has evaluated the
  test of its first line with the result \<open>b\<close>; \<open>Polling\<close>: the call is
  about to run the status command; \<open>Finished\<close>: the call has ended.
  \<^verbatim>\<open>cancel()\<close> acts on a waiting timer only.
\<close>

datatype timer = Waiting | Cancelled | Fired bool | Polling | Finished

text \<open>The main thread: in \<^verbatim>\<open>mainloop\<close>, ended by an exception, or left by q.\<close>

datatype mainloop = Running | Crashed error | Quit

text \<open>One \<^verbatim>\<open>addnstr(row, col, text, n)\<close> on the screen, the text cut to n.\<close>

type_synonym writing = "nat \<times> nat \<times> string"

text \<open>
  The object \<^verbatim>\<open>QWatch\<close> with what it acts on: the timers started so far
  (\<^verbatim>\<open>work_timer\<close> is an index into them), the number of runs of the status
  command, the two marks of the header, and what has been written below
  the header since its last clearing.
\<close>

record qwatch =
  jobs :: "job list"
  work_timer :: "nat option"
  settings_own :: bool
  settings_auto_refresh :: bool
  timers :: "timer list"
  polls :: nat
  scr_header :: "string \<times> string"
  scr_body :: "writing list"
  main :: mainloop

text \<open>
  What \<^verbatim>\<open>Popen(['qstat', '-x'])\<close> and \<^verbatim>\<open>communicate()\<close> give: the
  command cannot be started (OSError), or it ends with an exit status and
  its standard output. The code never reads the exit status.
\<close>

datatype process = CannotStart | Exited int string

text \<open>
  The surroundings: the outcome of the k-th run of the status command,
  the XML parser, and the name that \<^verbatim>\<open>getpass.getuser()\<close> returns.
\<close>

record env =
  qstat :: "nat \<Rightarrow> process"
  parseString :: "string \<Rightarrow> error + document"
  getuser :: string

definition init :: qwatch where
  "init =
     \<lparr>jobs = [], work_timer = None, settings_own = False, settings_auto_refresh = True,
      timers = [], polls = 0, scr_header = ([], []), scr_body = [], main = Running\<rparr>"

definition setting_display :: "bool \<Rightarrow> string" where
  "setting_display setting = (if setting then ''x'' else '' '')"

text \<open>
  \<^verbatim>\<open>get_jobs\<close>. With the filter off the owner of a job is not read; with
  the filter on it is read for every job, and an exception ends the loop.
\<close>

fun get_jobs_loop :: "bool \<Rightarrow> string \<Rightarrow> job list \<Rightarrow> error + job list" where
  "get_jobs_loop own user [] = Inr []"
| "get_jobs_loop own user (j # js) =
     (if \<not> own
      then (case get_jobs_loop own user js of Inl e \<Rightarrow> Inl e | Inr ret \<Rightarrow> Inr (j # ret))
      else (case owner j of
              Inl e \<Rightarrow> Inl e
            | Inr v \<Rightarrow>
                (case get_jobs_loop own user js of
                   Inl e \<Rightarrow> Inl e
                 | Inr ret \<Rightarrow> Inr (if v = Str user then j # ret else ret))))"

definition get_jobs :: "string \<Rightarrow> qwatch \<Rightarrow> error + job list" where
  "get_jobs user s = get_jobs_loop (settings_own s) user (jobs s)"

text \<open>
  The seven cells of a table row: the column, the attribute read, and the
  width given to \<^verbatim>\<open>addnstr\<close>. The attributes other than owner and memory
  go through \<^verbatim>\<open>__getattr__\<close>.
\<close>

definition job_cells :: "job \<Rightarrow> (nat \<times> (error + jval) \<times> nat) list" where
  "job_cells j =
     [(0, owner j, 19),
      (15, getattr j ''id'', 19),
      (35, getattr j ''name'', 19),
      (55, getattr j ''queue'', 9),
      (65, getattr j ''host'', 9),
      (75, getattr j ''time'', 9),
      (85, memory j, 9)]"

text \<open>
  Writing the cells of a row in order: the first attribute that raises
  ends the drawing, with the cells before it written; \<^verbatim>\<open>addnstr\<close> of a
  dictionary raises TypeError.
\<close>

fun draw_cells :: "nat \<Rightarrow> (nat \<times> (error + jval) \<times> nat) list \<Rightarrow> writing list
    \<Rightarrow> writing list \<times> error option" where
  "draw_cells row [] scr = (scr, None)"
| "draw_cells row ((col, v, n) # rest) scr =
     (case v of
        Inl e \<Rightarrow> (scr, Some e)
      | Inr (Dict m) \<Rightarrow> (scr, Some TypeError)
      | Inr (Str s) \<Rightarrow> draw_cells row rest (scr @ [(row, col, take n s)]))"

fun draw_jobs :: "nat \<Rightarrow> job list \<Rightarrow> writing list \<Rightarrow> writing list \<times> error option" where
  "draw_jobs i [] scr = (scr, None)"
| "draw_jobs i (j # js) scr =
     (case draw_cells (i + 2) (job_cells j) scr of
        (scr', Some e) \<Rightarrow> (scr', Some e)
      | (scr', None) \<Rightarrow> draw_jobs (i + 1) js scr')"

text \<open>
  \<^verbatim>\<open>refresh_data\<close>, in its two parts. First a new timer is created, stored
  in \<^verbatim>\<open>work_timer\<close> and started. Then the status command is run, its
  output parsed and assigned to \<^verbatim>\<open>jobs\<close>, the screen below the header
  cleared and the filtered jobs drawn. The result is the state at the end
  or at the exception, with the exception if there is one.
\<close>

definition arm_timer :: "qwatch \<Rightarrow> qwatch" where
  "arm_timer s = s\<lparr>work_timer := Some (length (timers s)), timers := timers s @ [Waiting]\<rparr>"

definition poll_and_draw :: "env \<Rightarrow> qwatch \<Rightarrow> qwatch \<times> error option" where
  "poll_and_draw e s =
     (case qstat e (polls s) of
        CannotStart \<Rightarrow> (s\<lparr>polls := Suc (polls s)\<rparr>, Some OSError)
      | Exited status out \<Rightarrow>
          (case parse (parseString e) out of
             Inl err \<Rightarrow> (s\<lparr>polls := Suc (polls s)\<rparr>, Some err)
           | Inr js \<Rightarrow>
               (let s1 = s\<lparr>polls := Suc (polls s), jobs := js, scr_body := []\<rparr> in
                case get_jobs (getuser e) s1 of
                  Inl err \<Rightarrow> (s1, Some err)
                | Inr shown \<Rightarrow>
                    if length shown \<noteq> 0
                    then (case draw_jobs 0 shown [] of (b, err) \<Rightarrow> (s1\<lparr>scr_body := b\<rparr>, err))
                    else (s1\<lparr>scr_body := [(2, 20, ''Currently no jobs in the queue.'')]\<rparr>,
                          None))))"

definition refresh_data :: "env \<Rightarrow> qwatch \<Rightarrow> qwatch \<times> error option" where
  "refresh_data e s = poll_and_draw e (if settings_auto_refresh s then arm_timer s else s)"

text \<open>\<^verbatim>\<open>timer.cancel()\<close>: a timer that still waits will not fire.\<close>

definition cancel :: "nat \<Rightarrow> qwatch \<Rightarrow> qwatch" where
  "cancel i s =
     (if i < length (timers s) \<and> timers s ! i = Waiting
      then s\<lparr>timers := (timers s)[i := Cancelled]\<rparr> else s)"

text \<open>
  \<^verbatim>\<open>display_header\<close>: the header is drawn with the marks of the two
  settings, the timer in \<^verbatim>\<open>work_timer\<close> is cancelled if there is one, and
  \<^verbatim>\<open>refresh_data\<close> is called.
\<close>

definition display_header :: "env \<Rightarrow> qwatch \<Rightarrow> qwatch \<times> error option" where
  "display_header e s =
     (let s1 = s\<lparr>scr_header :=
                  (setting_display (settings_auto_refresh s), setting_display (settings_own s))\<rparr>;
          s2 = (case work_timer s1 of None \<Rightarrow> s1 | Some i \<Rightarrow> cancel i s1)
      in refresh_data e s2)"

text \<open>An exception in the main thread ends \<^verbatim>\<open>mainloop\<close>.\<close>

definition in_main :: "qwatch \<times> error option \<Rightarrow> qwatch" where
  "in_main r = (case snd r of None \<Rightarrow> fst r | Some err \<Rightarrow> (fst r)\<lparr>main := Crashed err\<rparr>)"

text \<open>
  One turn of the loop of \<^verbatim>\<open>mainloop\<close> for the key read. For q,
  \<^verbatim>\<open>self.work_timer.cancel()\<close> raises AttributeError when no timer was
  ever stored.
\<close>

definition handle_key :: "env \<Rightarrow> char \<Rightarrow> qwatch \<Rightarrow> qwatch" where
  "handle_key e c s =
     (if c = CHR ''q''
      then (case work_timer s of
              None \<Rightarrow> s\<lparr>main := Crashed AttributeError\<rparr>
            | Some i \<Rightarrow> (cancel i s)\<lparr>main := Quit\<rparr>)
      else if c = CHR ''a''
      then in_main (display_header e (s\<lparr>settings_auto_refresh := \<not> settings_auto_refresh s\<rparr>))
      else if c = CHR ''r''
      then in_main (display_header e s)
      else if c = CHR ''u''
      then in_main (display_header e (s\<lparr>settings_own := \<not> settings_own s\<rparr>))
      else s)"

text \<open>\<^verbatim>\<open>start\<close>: \<^verbatim>\<open>mainloop\<close> up to its first read of a key.\<close>

definition start :: "env \<Rightarrow> qwatch" where
  "start e = in_main (display_header e init)"

text \<open>
  The steps of the program. The code takes no lock, so the call of
  \<^verbatim>\<open>refresh_data\<close> in a timer's thread can be interleaved with the main
  thread: \<open>Fire i\<close> is timer \<open>i\<close> ending its wait and evaluating
  \<^verbatim>\<open>if self.settings_auto_refresh\<close>; the first \<open>Advance i\<close> is the
  creation and start of the next timer if the test held; the second is the
  rest of \<^verbatim>\<open>refresh_data\<close>, where an exception ends the thread only.
  \<open>Key c\<close> is a whole turn of the main loop. A step that cannot be taken
  gives \<open>None\<close>.
\<close>

datatype event = Key char | Fire nat | Advance nat

fun step :: "env \<Rightarrow> event \<Rightarrow> qwatch \<Rightarrow> qwatch option" where
  "step e (Key c) s = (if main s = Running then Some (handle_key e c s) else None)"
| "step e (Fire i) s =
     (if i < length (timers s) \<and> timers s ! i = Waiting
      then Some (s\<lparr>timers := (timers s)[i := Fired (settings_auto_refresh s)]\<rparr>)
      else None)"
| "step e (Advance i) s =
     (if i < length (timers s)
      then (case timers s ! i of
              Fired b \<Rightarrow>
                (let s1 = (if b then arm_timer s else s)
                 in Some (s1\<lparr>timers := (timers s1)[i := Polling]\<rparr>))
            | Polling \<Rightarrow>
                (let s1 = fst (poll_and_draw e s)
                 in Some (s1\<lparr>timers := (timers s1)[i := Finished]\<rparr>))
            | _ \<Rightarrow> None)
      else None)"

fun run :: "env \<Rightarrow> event list \<Rightarrow> qwatch \<Rightarrow> qwatch option" where
  "run e [] s = Some s"
| "run e (ev # evs) s = (case step e ev s of None \<Rightarrow> None | Some s' \<Rightarrow> run e evs s')"



text \<open>The timers that are scheduled and have neither fired nor been cancelled.\<close>

definition pending :: "qwatch \<Rightarrow> nat list" where
  "pending s = filter (\<lambda>i. timers s ! i = Waiting) [0..<length (timers s)]"

text \<open>
  The value that the loop of \<^verbatim>\<open>parse_job\<close> stores for one child node:
  used to state what a field of the result is.
\<close>

definition field_of :: "node \<Rightarrow> error + jval" where
  "field_of node =
     (case childNodes node of
        [] \<Rightarrow> Inl IndexError
      | c # cs \<Rightarrow>
          if is_text_node c then Inr (Str (nodeValue c))
          else (case parse_job node of Inl e \<Rightarrow> Inl e | Inr sub \<Rightarrow> Inr (Dict sub)))"



text \<open>
  Surroundings for the examples: a parser that knows two documents, one
  without jobs and one with a single job, by their text.
\<close>

definition example_parser :: "string \<Rightarrow> error + document" where
  "example_parser xml =
     (if xml = ''<Data/>'' then Inr (Document [Element ''Data'' []])
      else if xml = ''<Data><Job><Job_Id>7.srv</Job_Id><Job_Name>run</Job_Name><Job_Owner>alice@n1</Job_Owner><queue>batch</queue><exec_host>n1/0</exec_host><resources_used><mem>2048kb</mem><walltime>00:10:00</walltime></resources_used></Job></Data>''
      then Inr (Document [Element ''Data'' [Element ''Job''
             [Element ''Job_Id'' [Text ''7.srv''],
              Element ''Job_Name'' [Text ''run''],
              Element ''Job_Owner'' [Text ''alice@n1''],
              Element ''queue'' [Text ''batch''],
              Element ''exec_host'' [Text ''n1/0''],
              Element ''resources_used''
                [Element ''mem'' [Text ''2048kb''], Element ''walltime'' [Text ''00:10:00'']]]]])
      else Inl ExpatError)"

definition example_env :: "(nat \<Rightarrow> process) \<Rightarrow> env" where
  "example_env q = \<lparr>qstat = q, parseString = example_parser, getuser = ''alice''\<rparr>"

section \<open>The parser: lemmas\<close>

lemma parse_nodes_Cons:
  "parse_nodes (node # rest) acc =
     (case field_of node of
        Inl e \<Rightarrow> Inl e
      | Inr v \<Rightarrow> parse_nodes rest (AList.update (normalize_name (nodeName node)) v acc))"
  by (simp add: field_of_def split: list.split sum.split)

lemma parse_nodes_append:
  "parse_nodes (xs @ ys) acc =
     (case parse_nodes xs acc of Inl e \<Rightarrow> Inl e | Inr acc' \<Rightarrow> parse_nodes ys acc')"
proof (induction xs arbitrary: acc)
  case Nil
  show ?case by simp
next
  case (Cons x xs)
  show ?case
    unfolding append_Cons parse_nodes_Cons
    by (cases "field_of x") (simp_all add: Cons.IH)
qed

lemma parse_nodes_other_keys:
  "parse_nodes cs acc = Inr acc' \<Longrightarrow>
   list_all (\<lambda>x. normalize_name (nodeName x) \<noteq> k) cs \<Longrightarrow>
   map_of acc' k = map_of acc k"
proof (induction cs arbitrary: acc)
  case Nil
  then show ?case by simp
next
  case (Cons x xs)
  from Cons.prems(1) obtain v where v: "field_of x = Inr v"
    and rest: "parse_nodes xs (AList.update (normalize_name (nodeName x)) v acc) = Inr acc'"
    unfolding parse_nodes_Cons by (cases "field_of x") simp_all
  from Cons.prems(2) have ne: "normalize_name (nodeName x) \<noteq> k"
    and xs: "list_all (\<lambda>x. normalize_name (nodeName x) \<noteq> k) xs"
    by simp_all
  from Cons.IH [OF rest xs] ne show ?case
    by (simp add: update_conv')
qed

lemma parse_nodes_distinct:
  "parse_nodes cs acc = Inr acc' \<Longrightarrow> distinct (map fst acc) \<Longrightarrow> distinct (map fst acc')"
proof (induction cs arbitrary: acc)
  case Nil
  then show ?case by simp
next
  case (Cons x xs)
  from Cons.prems(1) obtain v where
    rest: "parse_nodes xs (AList.update (normalize_name (nodeName x)) v acc) = Inr acc'"
    unfolding parse_nodes_Cons by (cases "field_of x") simp_all
  from Cons.IH [OF rest] Cons.prems(2) show ?case
    by (simp add: distinct_update)
qed

lemma parse_nodes_field:
  assumes "parse_nodes (pre @ c # post) acc0 = Inr acc"
    and "list_all (\<lambda>x. normalize_name (nodeName x) \<noteq> normalize_name (nodeName c)) post"
  shows "\<exists>v. field_of c = Inr v \<and> map_of acc (normalize_name (nodeName c)) = Some v"
proof -
  from assms(1) obtain d1 where d1: "parse_nodes pre acc0 = Inr d1"
    and r1: "parse_nodes (c # post) d1 = Inr acc"
    unfolding parse_nodes_append by (cases "parse_nodes pre acc0") simp_all
  from r1 obtain v where v: "field_of c = Inr v"
    and r2: "parse_nodes post (AList.update (normalize_name (nodeName c)) v d1) = Inr acc"
    unfolding parse_nodes_Cons by (cases "field_of c") simp_all
  from parse_nodes_other_keys [OF r2 assms(2)]
  have "map_of acc (normalize_name (nodeName c)) = Some v"
    by (simp add: update_conv')
  with v show ?thesis by blast
qed


lemma parse_jobs_results:
  "parse_jobs ns = Inr js \<Longrightarrow> map (\<lambda>j. Inr (data j)) js = map parse_job ns"
proof (induction ns arbitrary: js)
  case Nil
  then show ?case by simp
next
  case (Cons n ns)
  from Cons.prems obtain dn where dn: "parse_job n = Inr dn"
    by (cases "parse_job n") simp_all
  with Cons.prems obtain js' where js': "parse_jobs ns = Inr js'" and js: "js = Job dn # js'"
    by (cases "parse_jobs ns") auto
  from Cons.IH [OF js'] dn js show ?case by simp
qed

lemma elements_by_tag_list_append:
  "elements_by_tag_list name (xs @ ys) = elements_by_tag_list name xs @ elements_by_tag_list name ys"
  by (induction xs) simp_all

section \<open>The parser: the claims\<close>

text \<open>
  C1 (the code fails it). The claim: for every well-formed document with N
  per-job elements, \<^verbatim>\<open>parse\<close> returns N job records in document order.
  On the well-formed document
  \<^verbatim>\<open><Data><Job><Job_Id>1</Job_Id></Job><Job><comment/></Job></Data>\<close>,
  which has two per-job elements, \<^verbatim>\<open>parse\<close> returns no list: the field
  without children makes \<^verbatim>\<open>parse_job\<close> raise IndexError.
\<close>

theorem parse_raises_on_childless_field:
  "parse (\<lambda>xml. Inr (Document [Element ''Data''
       [Element ''Job'' [Element ''Job_Id'' [Text ''1'']],
        Element ''Job'' [Element ''comment'' []]]]))
     ''<Data><Job><Job_Id>1</Job_Id></Job><Job><comment/></Job></Data>''
   = Inl IndexError"
  by (simp add: parse_def)

text \<open>
  When \<^verbatim>\<open>parse\<close> does return a list, the list has one record for each
  per-job element of the document, at whatever depth it is found, in
  document order: the k-th record is the result of \<^verbatim>\<open>parse_job\<close> on the
  k-th per-job element.
\<close>

theorem parse_count_and_order:
  assumes "parser xml = Inr doc" and "parse parser xml = Inr js"
  shows "length js = length (getElementsByTagName doc ''Job'')
       \<and> map (\<lambda>j. Inr (data j)) js = map parse_job (getElementsByTagName doc ''Job'')"
proof -
  from assms have "parse_jobs (getElementsByTagName doc ''Job'') = Inr js"
    by (simp add: parse_def)
  from parse_jobs_results [OF this]
  have m: "map (\<lambda>j. Inr (data j)) js = map parse_job (getElementsByTagName doc ''Job'')" .
  from arg_cong [OF m, of length] have "length js = length (getElementsByTagName doc ''Job'')"
    by simp
  with m show ?thesis by simp
qed

theorem parse_count_and_order_witness:
  "parse (\<lambda>xml. Inr (Document [Element ''Data''
       [Element ''Job'' [Element ''Job_Id'' [Text ''1'']],
        Element ''Batch'' [Element ''Job'' [Element ''Job_Id'' [Text ''2'']]]]])) []
     = Inr [Job [(''job_id'', Str ''1'')], Job [(''job_id'', Str ''2'')]]
   \<and> length [Job [(''job_id'', Str ''1'')], Job [(''job_id'', Str ''2'')]]
     = length (getElementsByTagName (Document [Element ''Data''
       [Element ''Job'' [Element ''Job_Id'' [Text ''1'']],
        Element ''Batch'' [Element ''Job'' [Element ''Job_Id'' [Text ''2'']]]]]) ''Job'')"
proof -
  let ?doc = "Document [Element ''Data''
       [Element ''Job'' [Element ''Job_Id'' [Text ''1'']],
        Element ''Batch'' [Element ''Job'' [Element ''Job_Id'' [Text ''2'']]]]]"
  let ?ps = "\<lambda>xml :: string. Inr ?doc :: error + document"
  have a: "?ps [] = Inr ?doc" by simp
  have b: "parse ?ps [] = Inr [Job [(''job_id'', Str ''1'')], Job [(''job_id'', Str ''2'')]]"
    by (simp add: parse_def normalize_name_def lower_char_def)
  from parse_count_and_order [OF a b] b show ?thesis by simp
qed

text \<open>
  C4. When a per-job element has several child elements whose lower-cased
  tag names are equal, the parsed record maps that name to the value of the
  last of them in document order: for a child \<open>c\<close> after which no child
  has the same name, the record holds the value of \<open>c\<close> alone, whatever
  stands before it. The keys of the record are distinct, so the earlier
  siblings of the same name leave nothing behind.
\<close>

theorem parse_job_last_sibling_wins:
  assumes "parse_job (Element t (pre @ c # post)) = Inr acc"
    and "list_all (\<lambda>x. normalize_name (nodeName x) \<noteq> normalize_name (nodeName c)) post"
  shows "\<exists>v. field_of c = Inr v
            \<and> map_of acc (normalize_name (nodeName c)) = Some v
            \<and> distinct (map fst acc)"
proof -
  from assms(1) have p: "parse_nodes (pre @ c # post) [] = Inr acc" by simp
  from parse_nodes_field [OF p assms(2)] obtain v where
    "field_of c = Inr v" "map_of acc (normalize_name (nodeName c)) = Some v" by blast
  moreover from parse_nodes_distinct [OF p] have "distinct (map fst acc)" by simp
  ultimately show ?thesis by blast
qed

theorem parse_job_last_sibling_wins_witness:
  "parse_job (Element ''Job''
      ([Element ''Mem'' [Text ''1'']] @ Element ''MEM'' [Text ''2''] # [Element ''x'' [Text ''y'']]))
     = Inr [(''mem'', Str ''2''), (''x'', Str ''y'')]
   \<and> field_of (Element ''MEM'' [Text ''2'']) = Inr (Str ''2'')
   \<and> map_of [(''mem'', Str ''2''), (''x'', Str ''y'')] ''mem'' = Some (Str ''2'')"
proof -
  have a: "parse_job (Element ''Job''
      ([Element ''Mem'' [Text ''1'']] @ Element ''MEM'' [Text ''2''] # [Element ''x'' [Text ''y'']]))
     = Inr [(''mem'', Str ''2''), (''x'', Str ''y'')]"
    by (simp add: normalize_name_def lower_char_def)
  have b: "list_all (\<lambda>x. normalize_name (nodeName x)
      \<noteq> normalize_name (nodeName (Element ''MEM'' [Text ''2'']))) [Element ''x'' [Text ''y'']]"
    by (simp add: normalize_name_def lower_char_def)
  from parse_job_last_sibling_wins [OF a b] a show ?thesis
    by (simp add: field_of_def)
qed

text \<open>
  C5 (the code fails it). The claim: a child element without children is
  skipped and adds no entry. The code reads \<^verbatim>\<open>node.childNodes[0]\<close> before
  it tests \<^verbatim>\<open>len(node.childNodes) > 0\<close>, so that on
  \<^verbatim>\<open><Job><comment/></Job>\<close> \<^verbatim>\<open>parse_job\<close> raises IndexError.
\<close>

theorem parse_job_raises_on_childless_child:
  "parse_job (Element ''Job'' [Element ''comment'' []]) = Inl IndexError"
  by simp



section \<open>Job: lemmas and claims\<close>

lemma find_char_absent: "c \<notin> set s \<Longrightarrow> find_char c s = -1"
  by (induction s) (auto simp: Let_def)

lemma find_char_first: "c \<notin> set u \<Longrightarrow> find_char c (u @ c # h) = int (length u)"
  by (induction u) (auto simp: Let_def)

text \<open>
  With a host suffix, \<^verbatim>\<open>get_owner\<close> returns what stands before the first
  \<^verbatim>\<open>@\<close>. Without any \<^verbatim>\<open>@\<close>, \<^verbatim>\<open>find\<close> returns -1 and the slice
  \<^verbatim>\<open>o[:-1]\<close> drops the last character of the name.
\<close>

lemma get_owner_strips_host:
  assumes "d j ''job_owner'' = Inr (Str (u @ CHR ''@'' # h))" and "CHR ''@'' \<notin> set u"
  shows "get_owner j = Inr u"
  using assms by (simp add: get_owner_def find_char_first slice_to_def)

lemma get_owner_without_host:
  assumes "d j ''job_owner'' = Inr (Str s)" and "CHR ''@'' \<notin> set s"
  shows "get_owner j = Inr (butlast s)"
proof -
  have "nat (int (length s) - 1) = length s - 1" by arith
  with assms show ?thesis
    by (simp add: get_owner_def find_char_absent slice_to_def butlast_conv_take)
qed

text \<open>
  C2 (the code fails it). The claim: an owner string without \<^verbatim>\<open>@\<close> is
  returned unchanged, so that the owner of \<^verbatim>\<open>bob\<close> is \<^verbatim>\<open>bob\<close>. The code
  returns \<^verbatim>\<open>bo\<close>; the owner of \<^verbatim>\<open>alice@node03\<close> is \<^verbatim>\<open>alice\<close> as claimed.
\<close>

theorem get_owner_without_at_drops_last_char:
  "get_owner (Job [(''job_owner'', Str ''bob'')]) = Inr ''bo''
   \<and> owner (Job [(''job_owner'', Str ''bob'')]) = Inr (Str ''bo'')
   \<and> get_owner (Job [(''job_owner'', Str ''alice@node03'')]) = Inr ''alice''"
  by (simp add: owner_def get_owner_def d_def slice_to_def)

lemma float_of_int_exact: "\<bar>n\<bar> < 2 ^ 53 \<Longrightarrow> float_of_int n = Inr n"
  by (simp add: float_of_int_def)

lemma slice_to_drop_two: "slice_to (p @ [a, b]) (- 2) = p"
  by (simp add: slice_to_def)

text \<open>
  C3 (false as stated). The claim has \<^verbatim>\<open>1024kb\<close> formatted as
  \<^verbatim>\<open>1.0 MB\<close> and \<^verbatim>\<open>1023kb\<close> as \<^verbatim>\<open>1023.0 kB\<close>. The code promotes the
  unit only above 1024, and both strings are formatted as \<^verbatim>\<open>1.0 kB\<close>.
\<close>

theorem get_memory_boundary_counterexample:
  "get_memory (Job [(''resources_used'', Dict [(''mem'', Str ''1024kb'')])]) = Inr ''1.0 kB''
   \<and> get_memory (Job [(''resources_used'', Dict [(''mem'', Str ''1024kb'')])]) \<noteq> Inr ''1.0 MB''
   \<and> get_memory (Job [(''resources_used'', Dict [(''mem'', Str ''1023kb'')])]) = Inr ''1.0 kB''
   \<and> get_memory (Job [(''resources_used'', Dict [(''mem'', Str ''1023kb'')])]) \<noteq> Inr ''1023.0 kB''"
  by (simp add: get_memory_def d_def slice_to_def py_int_def strip_def is_space_def digit_val_def
      float_of_int_def format_1f_def)

text \<open>
  C3 as amended. The memory accessor drops the last two characters of the
  raw field and reads the rest as an integer number of kilobytes (below
  \<open>2 ^ 53\<close> in size, where the conversion to a float is exact). A number
  greater than \<open>1024 * 1024\<close> is formatted in GB as the number divided by
  \<open>1024 * 1024\<close>, with one decimal place; otherwise a number greater than
  1024 is formatted in MB as the number divided by 1024, with one decimal
  place; a number of at most 1024 gets the unit kB.
\<close>

theorem get_memory_units:
  assumes "d j ''resources_used.mem'' = Inr (Str (p @ [a, b]))"
    and "py_int p = Inr mem"
    and "\<bar>mem\<bar> < 2 ^ 53"
  shows "(1024 * 1024 < mem \<longrightarrow> get_memory j = Inr (format_1f mem (1024 * 1024) @ '' GB''))
       \<and> (1024 < mem \<and> mem \<le> 1024 * 1024 \<longrightarrow> get_memory j = Inr (format_1f mem 1024 @ '' MB''))
       \<and> (mem \<le> 1024 \<longrightarrow> (\<exists>x. get_memory j = Inr (x @ '' kB'')))"
proof -
  have m: "get_memory j =
      (if mem > 1024 * 1024 then Inr (format_1f mem (1024 * 1024) @ '' GB'')
       else if mem > 1024 then Inr (format_1f mem 1024 @ '' MB'')
       else Inr (format_1f mem 1024 @ '' kB''))"
    unfolding get_memory_def assms(1)
    by (simp only: sum.case jval.case slice_to_drop_two assms(2) float_of_int_exact [OF assms(3)])
  show ?thesis
    unfolding m by auto
qed

theorem get_memory_units_witness:
  "get_memory (Job [(''resources_used'', Dict [(''mem'', Str (''2048'' @ [CHR ''k'', CHR ''b'']))])])
     = Inr ''2.0 MB''
   \<and> get_memory (Job [(''resources_used'', Dict [(''mem'', Str ''3145728kb'')])]) = Inr ''3.0 GB''
   \<and> get_memory (Job [(''resources_used'', Dict [(''mem'', Str ''1025kb'')])]) = Inr ''1.0 MB''
   \<and> get_memory (Job [(''resources_used'', Dict [(''mem'', Str ''512kb'')])]) = Inr ''0.5 kB''"
proof -
  let ?j = "Job [(''resources_used'', Dict [(''mem'', Str (''2048'' @ [CHR ''k'', CHR ''b'']))])]"
  have a: "d ?j ''resources_used.mem'' = Inr (Str (''2048'' @ [CHR ''k'', CHR ''b'']))"
    by (simp add: d_def)
  have b: "py_int ''2048'' = Inr 2048"
    by (simp add: py_int_def strip_def is_space_def digit_val_def)
  have c: "\<bar>2048 :: int\<bar> < 2 ^ 53" by simp
  have f: "format_1f 2048 1024 = ''2.0''" by (simp add: format_1f_def)
  from get_memory_units [OF a b c] have "get_memory ?j = Inr ''2.0 MB''"
    by (simp add: f)
  moreover have
    "get_memory (Job [(''resources_used'', Dict [(''mem'', Str ''3145728kb'')])]) = Inr ''3.0 GB''"
    "get_memory (Job [(''resources_used'', Dict [(''mem'', Str ''1025kb'')])]) = Inr ''1.0 MB''"
    "get_memory (Job [(''resources_used'', Dict [(''mem'', Str ''512kb'')])]) = Inr ''0.5 kB''"
    by (simp_all add: get_memory_def d_def slice_to_def py_int_def strip_def is_space_def
        digit_val_def float_of_int_def format_1f_def)
  ultimately show ?thesis by simp
qed

section \<open>The filter of \<^verbatim>\<open>get_jobs\<close>\<close>

lemma get_jobs_loop_filter:
  "\<forall>j\<in>set js. \<exists>v. owner j = Inr v \<Longrightarrow>
   get_jobs_loop True u js = Inr (filter (\<lambda>j. owner j = Inr (Str u)) js)"
  by (induction js) auto

lemma get_jobs_loop_unfiltered: "get_jobs_loop False u js = Inr js"
  by (induction js) auto

text \<open>
  C6. With the filter on, and a snapshot in which every job has an owner
  to read, \<^verbatim>\<open>get_jobs\<close> returns the jobs of the snapshot whose owner is
  the current user, in their order in the snapshot; and on its own result
  as the snapshot it returns that result again.
\<close>

theorem get_jobs_filters_by_owner:
  assumes "settings_own s" and "\<forall>j\<in>set (jobs s). \<exists>v. owner j = Inr v"
  shows "get_jobs u s = Inr (filter (\<lambda>j. owner j = Inr (Str u)) (jobs s))
       \<and> get_jobs u (s\<lparr>jobs := filter (\<lambda>j. owner j = Inr (Str u)) (jobs s)\<rparr>)
           = Inr (filter (\<lambda>j. owner j = Inr (Str u)) (jobs s))"
proof -
  from assms have 1: "get_jobs u s = Inr (filter (\<lambda>j. owner j = Inr (Str u)) (jobs s))"
    by (simp add: get_jobs_def get_jobs_loop_filter)
  from assms(2) have
    "\<forall>j\<in>set (filter (\<lambda>j. owner j = Inr (Str u)) (jobs s)). \<exists>v. owner j = Inr v"
    by simp
  from get_jobs_loop_filter [OF this, of u] assms(1)
  have 2: "get_jobs u (s\<lparr>jobs := filter (\<lambda>j. owner j = Inr (Str u)) (jobs s)\<rparr>)
      = Inr (filter (\<lambda>j. owner j = Inr (Str u)) (jobs s))"
    by (simp add: get_jobs_def)
  from 1 2 show ?thesis by simp
qed

theorem get_jobs_filters_by_owner_witness:
  "get_jobs ''alice''
     (init\<lparr>settings_own := True,
           jobs := [Job [(''job_owner'', Str ''alice@n1''), (''job_id'', Str ''1'')],
                    Job [(''job_owner'', Str ''bob@n2''), (''job_id'', Str ''2'')],
                    Job [(''job_owner'', Str ''alice@n3''), (''job_id'', Str ''3'')]]\<rparr>)
   = Inr [Job [(''job_owner'', Str ''alice@n1''), (''job_id'', Str ''1'')],
          Job [(''job_owner'', Str ''alice@n3''), (''job_id'', Str ''3'')]]"
proof -
  let ?s = "init\<lparr>settings_own := True,
           jobs := [Job [(''job_owner'', Str ''alice@n1''), (''job_id'', Str ''1'')],
                    Job [(''job_owner'', Str ''bob@n2''), (''job_id'', Str ''2'')],
                    Job [(''job_owner'', Str ''alice@n3''), (''job_id'', Str ''3'')]]\<rparr>"
  have a: "settings_own ?s" by simp
  have b: "\<forall>j\<in>set (jobs ?s). \<exists>v. owner j = Inr v"
    by (simp add: owner_def get_owner_def d_def)
  from get_jobs_filters_by_owner [OF a b, of "''alice''"] show ?thesis
    by (simp add: owner_def get_owner_def d_def slice_to_def)
qed

section \<open>The refresh cycle\<close>

lemma poll_and_draw_frame:
  "settings_own (fst (poll_and_draw e s)) = settings_own s"
  "settings_auto_refresh (fst (poll_and_draw e s)) = settings_auto_refresh s"
  "timers (fst (poll_and_draw e s)) = timers s"
  "work_timer (fst (poll_and_draw e s)) = work_timer s"
  "main (fst (poll_and_draw e s)) = main s"
  "scr_header (fst (poll_and_draw e s)) = scr_header s"
  "polls (fst (poll_and_draw e s)) = Suc (polls s)"
  by (simp_all add: poll_and_draw_def Let_def split: process.split sum.split prod.split)

lemma poll_and_draw_failure:
  assumes "qstat e (polls s) = CannotStart
      \<or> (\<exists>status out err. qstat e (polls s) = Exited status out
            \<and> parse (parseString e) out = Inl err)"
  shows "jobs (fst (poll_and_draw e s)) = jobs s"
    and "scr_body (fst (poll_and_draw e s)) = scr_body s"
    and "snd (poll_and_draw e s) \<noteq> None"
  using assms by (auto simp: poll_and_draw_def)

lemma poll_and_draw_success:
  assumes "qstat e (polls s) = Exited status out" and "parse (parseString e) out = Inr js"
  shows "jobs (fst (poll_and_draw e s)) = js"
  using assms by (simp add: poll_and_draw_def Let_def split: sum.split prod.split)

lemma poll_and_draw_body:
  assumes "qstat e (polls s) = Exited status out" and "parse (parseString e) out = Inr js"
    and "get_jobs_loop (settings_own s) (getuser e) js = Inr shown"
  shows "scr_body (fst (poll_and_draw e s)) =
           (if shown = [] then [(2, 20, ''Currently no jobs in the queue.'')]
            else fst (draw_jobs 0 shown []))"
  using assms by (simp add: poll_and_draw_def Let_def get_jobs_def split: prod.split)

lemma arm_timer_frame:
  "jobs (arm_timer s) = jobs s" "polls (arm_timer s) = polls s"
  "settings_own (arm_timer s) = settings_own s"
  "settings_auto_refresh (arm_timer s) = settings_auto_refresh s"
  "scr_body (arm_timer s) = scr_body s" "main (arm_timer s) = main s"
  by (simp_all add: arm_timer_def)

lemma cancel_frame:
  "jobs (cancel i s) = jobs s" "polls (cancel i s) = polls s"
  "settings_own (cancel i s) = settings_own s"
  "settings_auto_refresh (cancel i s) = settings_auto_refresh s"
  "scr_body (cancel i s) = scr_body s" "main (cancel i s) = main s"
  "work_timer (cancel i s) = work_timer s"
  "length (timers (cancel i s)) = length (timers s)"
  by (simp_all add: cancel_def)

text \<open>
  C8 (false as stated). The claim counts an abnormal exit of the status
  command as a failed cycle that keeps the snapshot. The code never reads
  the exit status: when the command ends with status 1 after writing a
  document that can be parsed, the jobs list is replaced by the new one.
\<close>

theorem refresh_after_abnormal_exit_counterexample:
  "jobs (fst (refresh_data
      (example_env (\<lambda>k. Exited 1 ''<Data/>''))
      (init\<lparr>jobs := [Job [(''job_id'', Str ''1'')]]\<rparr>))) = []
   \<and> jobs (fst (refresh_data
      (example_env (\<lambda>k. Exited 1 ''<Data/>''))
      (init\<lparr>jobs := [Job [(''job_id'', Str ''1'')]]\<rparr>)))
     \<noteq> jobs (init\<lparr>jobs := [Job [(''job_id'', Str ''1'')]]\<rparr>)"
  by (simp add: refresh_data_def poll_and_draw_def example_env_def example_parser_def init_def
      arm_timer_def parse_def get_jobs_def)

text \<open>
  C8 as amended. When the status command cannot be started, or its output
  fails to parse (the XML parser raises, or \<^verbatim>\<open>parse_job\<close> does), the
  refresh ends with an exception and the jobs list is what it was before,
  as is the table on the screen. The exit status of the command does not
  count: a cycle fails only by an exception.
\<close>

theorem refresh_failure_keeps_jobs:
  assumes "qstat e (polls s) = CannotStart
      \<or> (\<exists>status out err. qstat e (polls s) = Exited status out
            \<and> parse (parseString e) out = Inl err)"
  shows "jobs (fst (refresh_data e s)) = jobs s
       \<and> scr_body (fst (refresh_data e s)) = scr_body s
       \<and> snd (refresh_data e s) \<noteq> None"
proof -
  let ?s = "if settings_auto_refresh s then arm_timer s else s"
  have p: "polls ?s = polls s" and j: "jobs ?s = jobs s" and b: "scr_body ?s = scr_body s"
    by (simp_all add: arm_timer_frame)
  from assms have f: "qstat e (polls ?s) = CannotStart
      \<or> (\<exists>status out err. qstat e (polls ?s) = Exited status out
            \<and> parse (parseString e) out = Inl err)"
    unfolding p .
  from poll_and_draw_failure [OF f] j b show ?thesis
    unfolding refresh_data_def by simp
qed

theorem refresh_failure_keeps_jobs_witness:
  "jobs (fst (refresh_data (example_env (\<lambda>k. CannotStart))
      (init\<lparr>jobs := [Job [(''job_id'', Str ''1'')]]\<rparr>))) = [Job [(''job_id'', Str ''1'')]]
   \<and> jobs (fst (refresh_data (example_env (\<lambda>k. Exited 0 ''<Data><Job>''))
      (init\<lparr>jobs := [Job [(''job_id'', Str ''1'')]]\<rparr>))) = [Job [(''job_id'', Str ''1'')]]"
proof -
  let ?s = "init\<lparr>jobs := [Job [(''job_id'', Str ''1'')]]\<rparr>"
  let ?e1 = "example_env (\<lambda>k. CannotStart)"
  let ?e2 = "example_env (\<lambda>k. Exited 0 ''<Data><Job>'')"
  have a: "qstat ?e1 (polls ?s) = CannotStart
      \<or> (\<exists>status out err. qstat ?e1 (polls ?s) = Exited status out
            \<and> parse (parseString ?e1) out = Inl err)"
    by (simp add: example_env_def)
  have "parse (parseString ?e2) ''<Data><Job>'' = Inl ExpatError"
    by (simp add: example_env_def example_parser_def parse_def)
  then have b: "qstat ?e2 (polls ?s) = CannotStart
      \<or> (\<exists>status out err. qstat ?e2 (polls ?s) = Exited status out
            \<and> parse (parseString ?e2) out = Inl err)"
    by (simp add: example_env_def)
  from refresh_failure_keeps_jobs [OF a] refresh_failure_keeps_jobs [OF b] show ?thesis
    by (simp add: init_def)
qed

section \<open>The main loop\<close>

lemmas controller_defs =
  start_def in_main_def display_header_def refresh_data_def poll_and_draw_def
  example_env_def example_parser_def init_def arm_timer_def parse_def get_jobs_def cancel_def
  handle_key_def setting_display_def pending_def

lemmas job_defs =
  normalize_name_def lower_char_def job_cells_def owner_def get_owner_def d_def getattr_def
  property_map_def memory_def get_memory_def slice_to_def py_int_def strip_def is_space_def
  digit_val_def float_of_int_def format_1f_def

lemma in_main_frame:
  "jobs (in_main r) = jobs (fst r)" "polls (in_main r) = polls (fst r)"
  "settings_own (in_main r) = settings_own (fst r)"
  "settings_auto_refresh (in_main r) = settings_auto_refresh (fst r)"
  "scr_body (in_main r) = scr_body (fst r)" "timers (in_main r) = timers (fst r)"
  "work_timer (in_main r) = work_timer (fst r)"
  by (simp_all add: in_main_def split: option.split)


lemma display_header_frame:
  "polls (fst (display_header e s)) = Suc (polls s)"
  "settings_own (fst (display_header e s)) = settings_own s"
  "settings_auto_refresh (fst (display_header e s)) = settings_auto_refresh s"
  "main (fst (display_header e s)) = main s"
  by (simp_all add: display_header_def refresh_data_def Let_def poll_and_draw_frame
      arm_timer_frame cancel_frame split: option.split)

lemma display_header_success:
  assumes "qstat e (polls s) = Exited status out" and "parse (parseString e) out = Inr js"
  shows "jobs (fst (display_header e s)) = js"
proof -
  have "jobs (fst (poll_and_draw e x)) = js" if "polls x = polls s" for x
    using poll_and_draw_success [of e x status out js] that assms by simp
  then show ?thesis
    unfolding display_header_def refresh_data_def Let_def
    by (simp add: arm_timer_frame cancel_frame split: option.split)
qed

lemma display_header_body:
  assumes "qstat e (polls s) = Exited status out" and "parse (parseString e) out = Inr js"
    and "get_jobs_loop (settings_own s) (getuser e) js = Inr shown"
  shows "scr_body (fst (display_header e s)) =
           (if shown = [] then [(2, 20, ''Currently no jobs in the queue.'')]
            else fst (draw_jobs 0 shown []))"
proof -
  have "scr_body (fst (poll_and_draw e x)) =
           (if shown = [] then [(2, 20, ''Currently no jobs in the queue.'')]
            else fst (draw_jobs 0 shown []))"
    if "polls x = polls s" and "settings_own x = settings_own s" for x
    using poll_and_draw_body [of e x status out js shown] that assms by simp
  then show ?thesis
    unfolding display_header_def refresh_data_def Let_def
    by (simp add: arm_timer_frame cancel_frame split: option.split)
qed

text \<open>
  C7 (false as stated). The claim: the key u does not run the status
  command and does not replace the jobs list. In the code the key u ends in
  \<^verbatim>\<open>display_header\<close>, which calls \<^verbatim>\<open>refresh_data\<close>: after a start
  that found no job, the key u runs the status command a second time and
  the jobs list becomes the one job that this second run reports.
\<close>

theorem key_u_polls_again_counterexample:
  "polls (start (example_env (\<lambda>k. if k = 0 then Exited 0 ''<Data/>'' else Exited 0 ''<Data><Job><Job_Id>7.srv</Job_Id><Job_Name>run</Job_Name><Job_Owner>alice@n1</Job_Owner><queue>batch</queue><exec_host>n1/0</exec_host><resources_used><mem>2048kb</mem><walltime>00:10:00</walltime></resources_used></Job></Data>''))) = 1
   \<and> jobs (start (example_env (\<lambda>k. if k = 0 then Exited 0 ''<Data/>'' else Exited 0 ''<Data><Job><Job_Id>7.srv</Job_Id><Job_Name>run</Job_Name><Job_Owner>alice@n1</Job_Owner><queue>batch</queue><exec_host>n1/0</exec_host><resources_used><mem>2048kb</mem><walltime>00:10:00</walltime></resources_used></Job></Data>''))) = []
   \<and> polls (handle_key (example_env (\<lambda>k. if k = 0 then Exited 0 ''<Data/>'' else Exited 0 ''<Data><Job><Job_Id>7.srv</Job_Id><Job_Name>run</Job_Name><Job_Owner>alice@n1</Job_Owner><queue>batch</queue><exec_host>n1/0</exec_host><resources_used><mem>2048kb</mem><walltime>00:10:00</walltime></resources_used></Job></Data>''))
        CHR ''u''
        (start (example_env (\<lambda>k. if k = 0 then Exited 0 ''<Data/>'' else Exited 0 ''<Data><Job><Job_Id>7.srv</Job_Id><Job_Name>run</Job_Name><Job_Owner>alice@n1</Job_Owner><queue>batch</queue><exec_host>n1/0</exec_host><resources_used><mem>2048kb</mem><walltime>00:10:00</walltime></resources_used></Job></Data>'')))) = 2
   \<and> length (jobs (handle_key
        (example_env (\<lambda>k. if k = 0 then Exited 0 ''<Data/>'' else Exited 0 ''<Data><Job><Job_Id>7.srv</Job_Id><Job_Name>run</Job_Name><Job_Owner>alice@n1</Job_Owner><queue>batch</queue><exec_host>n1/0</exec_host><resources_used><mem>2048kb</mem><walltime>00:10:00</walltime></resources_used></Job></Data>''))
        CHR ''u''
        (start (example_env (\<lambda>k. if k = 0 then Exited 0 ''<Data/>'' else Exited 0 ''<Data><Job><Job_Id>7.srv</Job_Id><Job_Name>run</Job_Name><Job_Owner>alice@n1</Job_Owner><queue>batch</queue><exec_host>n1/0</exec_host><resources_used><mem>2048kb</mem><walltime>00:10:00</walltime></resources_used></Job></Data>''))))) = 1"
  by (simp add: controller_defs job_defs)

text \<open>
  C7 as amended. Handling the key u inverts the filter flag, leaves the
  auto-refresh flag as it is, and runs a whole refresh: the status command
  is run once more, and when its output parses, the jobs list is replaced
  by the newly parsed one and the table is drawn from the new list under
  the new value of the filter flag.
\<close>

theorem key_u_toggles_filter_and_refreshes:
  "settings_own (handle_key e CHR ''u'' s) = (\<not> settings_own s)
   \<and> settings_auto_refresh (handle_key e CHR ''u'' s) = settings_auto_refresh s
   \<and> polls (handle_key e CHR ''u'' s) = Suc (polls s)
   \<and> (\<forall>status out js. qstat e (polls s) = Exited status out \<and> parse (parseString e) out = Inr js
        \<longrightarrow> jobs (handle_key e CHR ''u'' s) = js
          \<and> (\<forall>shown. get_jobs_loop (\<not> settings_own s) (getuser e) js = Inr shown
                \<longrightarrow> scr_body (handle_key e CHR ''u'' s) =
                      (if shown = [] then [(2, 20, ''Currently no jobs in the queue.'')]
                       else fst (draw_jobs 0 shown []))))"
proof -
  let ?t = "s\<lparr>settings_own := \<not> settings_own s\<rparr>"
  have h: "handle_key e CHR ''u'' s = in_main (display_header e ?t)"
    by (simp add: handle_key_def)
  have 1: "settings_own (handle_key e CHR ''u'' s) = (\<not> settings_own s)"
    and 2: "settings_auto_refresh (handle_key e CHR ''u'' s) = settings_auto_refresh s"
    and 3: "polls (handle_key e CHR ''u'' s) = Suc (polls s)"
    unfolding h by (simp_all add: in_main_frame display_header_frame)
  have 4: "jobs (handle_key e CHR ''u'' s) = js"
    if "qstat e (polls s) = Exited status out" and "parse (parseString e) out = Inr js"
    for status out js
    unfolding h using display_header_success [of e ?t status out js] that
    by (simp add: in_main_frame)
  have 5: "scr_body (handle_key e CHR ''u'' s) =
                      (if shown = [] then [(2, 20, ''Currently no jobs in the queue.'')]
                       else fst (draw_jobs 0 shown []))"
    if "qstat e (polls s) = Exited status out" and "parse (parseString e) out = Inr js"
      and "get_jobs_loop (\<not> settings_own s) (getuser e) js = Inr shown"
    for status out js shown
    unfolding h using display_header_body [of e ?t status out js shown] that
    by (simp add: in_main_frame)
  from 1 2 3 4 5 show ?thesis by blast
qed

theorem key_u_toggles_filter_and_refreshes_witness:
  "settings_own (handle_key (example_env (\<lambda>k. Exited 0 ''<Data><Job><Job_Id>7.srv</Job_Id><Job_Name>run</Job_Name><Job_Owner>alice@n1</Job_Owner><queue>batch</queue><exec_host>n1/0</exec_host><resources_used><mem>2048kb</mem><walltime>00:10:00</walltime></resources_used></Job></Data>'')) CHR ''u'' init)
   \<and> polls (handle_key (example_env (\<lambda>k. Exited 0 ''<Data><Job><Job_Id>7.srv</Job_Id><Job_Name>run</Job_Name><Job_Owner>alice@n1</Job_Owner><queue>batch</queue><exec_host>n1/0</exec_host><resources_used><mem>2048kb</mem><walltime>00:10:00</walltime></resources_used></Job></Data>'')) CHR ''u'' init) = 1
   \<and> map data (jobs (handle_key (example_env (\<lambda>k. Exited 0 ''<Data><Job><Job_Id>7.srv</Job_Id><Job_Name>run</Job_Name><Job_Owner>alice@n1</Job_Owner><queue>batch</queue><exec_host>n1/0</exec_host><resources_used><mem>2048kb</mem><walltime>00:10:00</walltime></resources_used></Job></Data>'')) CHR ''u'' init)) =
       [[(''job_id'', Str ''7.srv''), (''job_name'', Str ''run''),
         (''job_owner'', Str ''alice@n1''), (''queue'', Str ''batch''),
         (''exec_host'', Str ''n1/0''),
         (''resources_used'', Dict [(''mem'', Str ''2048kb''), (''walltime'', Str ''00:10:00'')])]]
   \<and> scr_body (handle_key (example_env (\<lambda>k. Exited 0 ''<Data><Job><Job_Id>7.srv</Job_Id><Job_Name>run</Job_Name><Job_Owner>alice@n1</Job_Owner><queue>batch</queue><exec_host>n1/0</exec_host><resources_used><mem>2048kb</mem><walltime>00:10:00</walltime></resources_used></Job></Data>'')) CHR ''u'' init) =
       [(2, 0, ''alice''), (2, 15, ''7.srv''), (2, 35, ''run''), (2, 55, ''batch''),
        (2, 65, ''n1/0''), (2, 75, ''00:10:00''), (2, 85, ''2.0 MB'')]"
proof -
  let ?e = "example_env (\<lambda>k. Exited 0 ''<Data><Job><Job_Id>7.srv</Job_Id><Job_Name>run</Job_Name><Job_Owner>alice@n1</Job_Owner><queue>batch</queue><exec_host>n1/0</exec_host><resources_used><mem>2048kb</mem><walltime>00:10:00</walltime></resources_used></Job></Data>'')"
  let ?j = "Job [(''job_id'', Str ''7.srv''), (''job_name'', Str ''run''),
         (''job_owner'', Str ''alice@n1''), (''queue'', Str ''batch''),
         (''exec_host'', Str ''n1/0''),
         (''resources_used'', Dict [(''mem'', Str ''2048kb''), (''walltime'', Str ''00:10:00'')])]"
  have q: "qstat ?e (polls init) = Exited 0 ''<Data><Job><Job_Id>7.srv</Job_Id><Job_Name>run</Job_Name><Job_Owner>alice@n1</Job_Owner><queue>batch</queue><exec_host>n1/0</exec_host><resources_used><mem>2048kb</mem><walltime>00:10:00</walltime></resources_used></Job></Data>''"
    by (simp add: example_env_def)
  have p: "parse (parseString ?e) ''<Data><Job><Job_Id>7.srv</Job_Id><Job_Name>run</Job_Name><Job_Owner>alice@n1</Job_Owner><queue>batch</queue><exec_host>n1/0</exec_host><resources_used><mem>2048kb</mem><walltime>00:10:00</walltime></resources_used></Job></Data>'' = Inr [?j]"
    by (simp add: example_env_def example_parser_def parse_def normalize_name_def lower_char_def)
  have g: "get_jobs_loop (\<not> settings_own init) (getuser ?e) [?j] = Inr [?j]"
    by (simp add: example_env_def init_def owner_def get_owner_def d_def slice_to_def)
  have b: "fst (draw_jobs 0 [?j] []) =
       [(2, 0, ''alice''), (2, 15, ''7.srv''), (2, 35, ''run''), (2, 55, ''batch''),
        (2, 65, ''n1/0''), (2, 75, ''00:10:00''), (2, 85, ''2.0 MB'')]"
    by (simp add: job_defs)
  from key_u_toggles_filter_and_refreshes [of ?e init] q p g b show ?thesis
    by (simp add: init_def)
qed

section \<open>The timers\<close>




lemma cancel_waiting_last:
  "timers s = ts @ [Waiting] \<Longrightarrow> timers (cancel (length ts) s) = ts @ [Cancelled]"
  by (simp add: cancel_def)













end
